theory Spec2Isabelle
  imports Complex_Main "HOL-Library.Char_ord" "HOL-Library.List_Lexorder" "HOL-Library.Option_ord"
begin

section \<open>Conventions of the embedding\<close>

text \<open>
  The module \<^verbatim>\<open>slurmanalyser/utils.py\<close> is a set of column converters written on top
  of pandas. The embedding keeps the following conventions.

  \<^item> A pandas column (\<^verbatim>\<open>pd.Series\<close>) is a list; a nullable cell is an \<open>option\<close>
    (\<open>None\<close> is NaN / NaT / \<^verbatim>\<open><NA>\<close>). Element-wise pandas operations are maps over
    the list, so two columns that the source combines are assumed to carry the same
    index.
  \<^item> Strings are \<open>char list\<close>s of 8-bit characters; in that range the regular
    expression class \<^verbatim>\<open>\d\<close> is exactly \<^verbatim>\<open>[0-9]\<close>.
  \<^item> Python integers are \<open>int\<close>. Python floats and the float64 cells of pandas are
    modelled by the exact rational number they stand for: parsing a decimal literal,
    products and quotients are exact. The model and the code agree wherever the doubles
    involved carry their values without rounding error (all integers below \<open>2^53\<close>,
    dyadic fractions such as \<open>1.5\<close>); infinities and 64-bit overflow of pandas integer
    columns are outside the model.
  \<^item> A \<^verbatim>\<open>datetime.timedelta\<close> is its number of microseconds, a pandas
    \<^verbatim>\<open>timedelta64[ns]\<close> cell its number of nanoseconds.
  \<^item> An exception is a value of type \<open>error\<close>; a function that can raise returns
    \<open>error + 'a\<close>. Log records are returned as a list next to the result.
\<close>

section \<open>Characters, decimal numerals\<close>

definition is_digit :: "char \<Rightarrow> bool" where
  "is_digit c = (c \<in> set ''0123456789'')"

definition digit_val :: "char \<Rightarrow> nat" where
  "digit_val c = of_char c - 48"

definition digit_char :: "nat \<Rightarrow> char" where
  "digit_char n = ''0123456789'' ! n"

text \<open>Python \<^verbatim>\<open>int(s)\<close> on a string of decimal digits.\<close>

definition int_of_digits :: "string \<Rightarrow> int" where
  "int_of_digits s = foldl (\<lambda>a c. 10 * a + int (digit_val c)) 0 s"

text \<open>Python \<^verbatim>\<open>str(n)\<close> on an integer.\<close>

fun str_nat :: "nat \<Rightarrow> string" where
  "str_nat n = (if n < 10 then [digit_char n] else str_nat (n div 10) @ [digit_char (n mod 10)])"

declare str_nat.simps [simp del]

definition str_int :: "int \<Rightarrow> string" where
  "str_int i = (if i < 0 then CHR ''-'' # str_nat (nat (- i)) else str_nat (nat i))"

section \<open>Duration formatter\<close>

text \<open>
  \<^verbatim>\<open>util_timedelta_to_slurm_duration\<close> (lines 266-281). The column \<open>v\<close> holds
  nanosecond counts; \<^verbatim>\<open>//\<close> and \<^verbatim>\<open>%\<close> by a positive \<^verbatim>\<open>Timedelta\<close> are floor division and
  its remainder, which is what \<open>div\<close> and \<open>mod\<close> on \<open>int\<close> are.
\<close>

definition ns_per_s :: int where "ns_per_s = 1000000000"
definition ns_per_min :: int where "ns_per_min = 60 * 1000000000"
definition ns_per_h :: int where "ns_per_h = 3600 * 1000000000"
definition ns_per_day :: int where "ns_per_day = 86400 * 1000000000"

definition col_floordiv :: "int option list \<Rightarrow> int \<Rightarrow> int option list" where
  "col_floordiv v u = map (map_option (\<lambda>t. t div u)) v"

definition col_mod :: "int option list \<Rightarrow> int \<Rightarrow> int option list" where
  "col_mod v u = map (map_option (\<lambda>t. t mod u)) v"

text \<open>\<^verbatim>\<open>astype(str)\<close> on a nullable integer column: a missing cell prints as \<^verbatim>\<open><NA>\<close>.\<close>

definition astype_str :: "int option \<Rightarrow> string" where
  "astype_str x = (case x of None \<Rightarrow> ''<NA>'' | Some i \<Rightarrow> str_int i)"

text \<open>\<^verbatim>\<open>.str.zfill(w)\<close>: pad with zeros on the left up to width \<open>w\<close>, after a sign if
  there is one.\<close>

definition zfill :: "nat \<Rightarrow> string \<Rightarrow> string" where
  "zfill w s = (case s of
       [] \<Rightarrow> replicate w CHR ''0''
     | c # r \<Rightarrow> if c = CHR ''-'' \<or> c = CHR ''+''
                then c # replicate (w - length s) CHR ''0'' @ r
                else replicate (w - length s) CHR ''0'' @ s)"

definition col_cat :: "string list \<Rightarrow> string list \<Rightarrow> string list" where
  "col_cat a b = map2 (@) a b"

definition col_cat_lit :: "string list \<Rightarrow> string \<Rightarrow> string list" where
  "col_cat_lit a c = map (\<lambda>x. x @ c) a"

definition util_timedelta_to_slurm_duration :: "int option list \<Rightarrow> string list" where
  "util_timedelta_to_slurm_duration v =
     (let days = col_floordiv v ns_per_day;
          left = col_mod v ns_per_day;
          hours = col_floordiv left ns_per_h;
          left = col_mod v ns_per_h;
          minutes = col_floordiv left ns_per_min;
          left = col_mod v ns_per_min;
          seconds = col_floordiv left ns_per_s;
          days = col_cat_lit (map astype_str days) ''-'';
          days = map (\<lambda>d. if d = ''0-'' then [] else d) days;
          s = col_cat (col_cat_lit (col_cat (col_cat_lit (col_cat days
                (map (zfill 2 \<circ> astype_str) hours)) '':'')
                (map (zfill 2 \<circ> astype_str) minutes)) '':'')
                (map (zfill 2 \<circ> astype_str) seconds)
      in map2 (\<lambda>t c. if t = None then ''NA'' else c) v s)"

text \<open>
  The canonical form in the words of the specification: \<^verbatim>\<open>D-HH:MM:SS\<close>, the fields
  \<^verbatim>\<open>HH\<close>, \<^verbatim>\<open>MM\<close>, \<^verbatim>\<open>SS\<close> two digits each, no \<^verbatim>\<open>D-\<close> segment when the day count is zero,
  and \<^verbatim>\<open>NA\<close> for a null duration.
\<close>

definition two_digits :: "int \<Rightarrow> string" where
  "two_digits n = [digit_char (nat n div 10), digit_char (nat n mod 10)]"

definition td_days :: "int \<Rightarrow> int" where "td_days t = t div ns_per_day"
definition td_hours :: "int \<Rightarrow> int" where "td_hours t = (t mod ns_per_day) div ns_per_h"
definition td_minutes :: "int \<Rightarrow> int" where "td_minutes t = (t mod ns_per_h) div ns_per_min"
definition td_seconds :: "int \<Rightarrow> int" where "td_seconds t = (t mod ns_per_min) div ns_per_s"

definition canonical_form :: "int option \<Rightarrow> string" where
  "canonical_form x = (case x of
       None \<Rightarrow> ''NA''
     | Some t \<Rightarrow> (if td_days t = 0 then [] else str_int (td_days t) @ ''-'')
                 @ two_digits (td_hours t) @ '':'' @ two_digits (td_minutes t)
                 @ '':'' @ two_digits (td_seconds t))"

section \<open>Exceptions and log records\<close>

text \<open>
  The text of a message is kept as a constructor with the values that the source
  interpolates into its f-string: \<open>NonValidNA n na sample\<close> is the message of
  \<^verbatim>\<open>util_check_na\<close>, \<open>IncorrectReturnIn u\<close> that of \<^verbatim>\<open>util_norm_si\<close>,
  \<open>UnknownDurationFormat v\<close> that of the scalar duration parser. \<open>CouldNotConvertToFloat\<close>
  is the message of Python's \<^verbatim>\<open>float\<close>, \<open>OverflowError\<close> what
  \<^verbatim>\<open>datetime.timedelta\<close> raises beyond 999999999 days, \<open>TypeError\<close> what
  \<^verbatim>\<open>astype('Int64')\<close> raises on a float that is not a whole number and what
  \<^verbatim>\<open>np.unique\<close> raises on values it cannot order.
\<close>

datatype message =
    NonValidNA nat "string list" "string option list"
  | IncorrectReturnIn string
  | UnknownDurationFormat string
  | CouldNotConvertToFloat string

datatype error =
    ValueError message
  | Exception message
  | OverflowError
  | TypeError

datatype level = WARNING | ERROR

type_synonym log_record = "level \<times> message"

section \<open>NA validator\<close>

definition default_na_is :: "string list" where
  "default_na_is = ['''', ''Unknown'', ''NA'', ''NAN'', ''NaN'', ''NAT'', ''NaT'', ''nan'']"

definition col_isna :: "'a option list \<Rightarrow> bool list" where
  "col_isna x = map (\<lambda>c. c = None) x"

text \<open>\<^verbatim>\<open>v.isin(na_is)\<close>: a missing cell is in no marker set.\<close>

definition col_isin :: "string option list \<Rightarrow> string list \<Rightarrow> bool list" where
  "col_isin v na = map (\<lambda>c. case c of None \<Rightarrow> False | Some s \<Rightarrow> s \<in> set na) v"

text \<open>\<^verbatim>\<open>v[mask].values\<close>\<close>

definition col_select :: "'a list \<Rightarrow> bool list \<Rightarrow> 'a list" where
  "col_select v sel = map fst (filter snd (zip v sel))"

text \<open>
  \<^verbatim>\<open>np.unique\<close> on the object array \<^verbatim>\<open>v[non_valid].values\<close>: on strings, the
  distinct values in the order of their code points. A missing cell is a float NaN: it
  cannot be ordered against a string (\<^verbatim>\<open>TypeError\<close>), and since NaN differs from
  itself an array of missing cells only is returned as it is.
\<close>

definition np_unique :: "string option list \<Rightarrow> error + string option list" where
  "np_unique xs =
     (if list_all (\<lambda>c. c \<noteq> None) xs then Inr (sort (remdups xs))
      else if list_all (\<lambda>c. c = None) xs then Inr xs
      else Inl TypeError)"

text \<open>
  \<^verbatim>\<open>util_check_na\<close> (lines 66-94). The result pairs the log records written with the
  outcome; \<open>Inr None\<close> is the bare \<^verbatim>\<open>return\<close> of the \<^verbatim>\<open>ignore\<close> branch.
\<close>

definition util_check_na ::
  "string option list \<Rightarrow> 'a option list \<Rightarrow> string list option \<Rightarrow> string
     \<Rightarrow> log_record list \<times> (error + nat option)" where
  "util_check_na v x na_is check_na =
     (if check_na = ''ignore'' then ([], Inr None)
      else
        let na_is = (case na_is of None \<Rightarrow> default_na_is | Some l \<Rightarrow> l);
            non_valid = map2 (\<lambda>a b. a \<and> \<not> b) (col_isna x) (col_isin v na_is);
            num_of_non_valid = length (filter id non_valid)
        in if num_of_non_valid \<noteq> 0
           then
             (case np_unique (col_select v non_valid) of
                Inl e \<Rightarrow> ([], Inl e)
              | Inr u \<Rightarrow>
                  let msg = NonValidNA num_of_non_valid na_is (take 20 u)
                  in if check_na = ''warning'' then ([(WARNING, msg)], Inr (Some num_of_non_valid))
                     else if check_na = ''error'' then ([(ERROR, msg)], Inl (ValueError msg))
                     else ([], Inr (Some num_of_non_valid)))
           else ([], Inr (Some num_of_non_valid)))"

text \<open>
  The validator in the words of the specification: the unexpected cells are those whose
  converted value is missing while the original string is not an NA marker.
\<close>

definition unexpected_values :: "string list \<Rightarrow> 'a option list \<Rightarrow> string list \<Rightarrow> string list" where
  "unexpected_values v x na = map fst (filter (\<lambda>(s, c). c = None \<and> s \<notin> set na) (zip v x))"

definition na_marker_set :: "string list option \<Rightarrow> string list" where
  "na_marker_set na_is = (case na_is of None \<Rightarrow> default_na_is | Some l \<Rightarrow> l)"

definition na_message :: "string list \<Rightarrow> 'a option list \<Rightarrow> string list \<Rightarrow> message" where
  "na_message v x na =
     NonValidNA (length (unexpected_values v x na)) na
       (take 20 (sort (remdups (map Some (unexpected_values v x na)))))"

section \<open>Numbers\<close>

definition is_numch :: "char \<Rightarrow> bool" where
  "is_numch c = (is_digit c \<or> c = CHR ''.'')"

text \<open>
  The value of an unsigned decimal literal: digits, optionally a point and more digits,
  at least one digit in all. This is what Python's \<^verbatim>\<open>float\<close> and
  \<^verbatim>\<open>pd.to_numeric\<close> read on a string over the alphabet \<^verbatim>\<open>[0-9.]\<close>; any other string
  over that alphabet (no digit, two points) is not a number.
\<close>

definition decimal_value :: "string \<Rightarrow> rat option" where
  "decimal_value s =
     (let ip = takeWhile is_digit s; r = dropWhile is_digit s
      in case r of
           [] \<Rightarrow> if ip \<noteq> [] then Some (of_int (int_of_digits ip)) else None
         | c # fp \<Rightarrow>
             if c = CHR ''.'' \<and> list_all is_digit fp \<and> (ip \<noteq> [] \<or> fp \<noteq> [])
             then Some (of_int (int_of_digits ip) + of_int (int_of_digits fp) / 10 ^ length fp)
             else None)"

text \<open>Rounding to the nearest integer, ties to the even one (\<^verbatim>\<open>np.round\<close>, and the
  rounding of \<^verbatim>\<open>datetime.timedelta\<close> to microseconds).\<close>

definition round_half_even :: "rat \<Rightarrow> int" where
  "round_half_even q =
     (let f = \<lfloor>q\<rfloor>; d = q - of_int f
      in if d < 1 / 2 then f else if 1 / 2 < d then f + 1 else if even f then f else f + 1)"

text \<open>A numeric column is either nullable integer (\<^verbatim>\<open>Int64\<close>) or float.\<close>

datatype num_column = Int64 "int option list" | Float64 "rat option list"

fun column_length :: "num_column \<Rightarrow> nat" where
  "column_length (Int64 xs) = length xs"
| "column_length (Float64 xs) = length xs"

fun column_isna :: "num_column \<Rightarrow> bool list" where
  "column_isna (Int64 xs) = col_isna xs"
| "column_isna (Float64 xs) = col_isna xs"

text \<open>\<^verbatim>\<open>astype('Int64')\<close> on a float column: every present value has to be a whole
  number.\<close>

definition is_whole :: "rat \<Rightarrow> bool" where
  "is_whole q = (of_int \<lfloor>q\<rfloor> = q)"

definition astype_Int64 :: "rat option list \<Rightarrow> error + int option list" where
  "astype_Int64 x =
     (if list_all (\<lambda>c. case c of None \<Rightarrow> True | Some q \<Rightarrow> is_whole q) x
      then Inr (map (map_option floor) x) else Inl TypeError)"

definition col_round :: "rat option list \<Rightarrow> rat option list" where
  "col_round x = map (map_option (\<lambda>q. of_int (round_half_even q))) x"



section \<open>SI-suffix parser\<close>



definition is_si_suffix :: "char \<Rightarrow> bool" where
  "is_si_suffix c = (c \<in> set ''kmgtpeKMGTPE'')"

text \<open>The anchor \<^verbatim>\<open>$\<close> of Python's \<^verbatim>\<open>re\<close>: the end of the string, or the position
  before a newline that ends the string.\<close>

definition at_end :: "string \<Rightarrow> bool" where
  "at_end r = (r = [] \<or> r = [CHR 0x0A])"

text \<open>An optional character of a class, taken when present (the classes that follow
  each other in the patterns of this module are disjoint, so taking it is the only way
  to match).\<close>

definition opt_char :: "(char \<Rightarrow> bool) \<Rightarrow> string \<Rightarrow> string \<times> string" where
  "opt_char P r = (case r of [] \<Rightarrow> ([], []) | c # r' \<Rightarrow> if P c then ([c], r') else ([], r))"








section \<open>Memory-spec parser\<close>

text \<open>\<^verbatim>\<open>^([0-9.]+ ?[kmgtpeKMGTPE]?)([cnCN]?)$\<close>\<close>

definition is_qualifier :: "char \<Rightarrow> bool" where
  "is_qualifier c = (c \<in> set ''cnCN'')"

definition mem_extract :: "string \<Rightarrow> (string \<times> string) option" where
  "mem_extract s =
     (let num = takeWhile is_numch s;
          r = dropWhile is_numch s;
          (sp, r) = opt_char (\<lambda>c. c = CHR '' '') r;
          (suf, r) = opt_char is_si_suffix r;
          (q, r) = opt_char is_qualifier r
      in if num \<noteq> [] \<and> at_end r then Some (num @ sp @ suf, q) else None)"


section \<open>Generic coercers\<close>

text \<open>
  \<^verbatim>\<open>pd.to_numeric\<close> and \<^verbatim>\<open>pd.to_datetime\<close> read cells of any spelling; what they read
  from one cell (with \<^verbatim>\<open>errors='coerce'\<close>: nothing, where the cell is no number or no
  date) is a parameter of the coercers below.
\<close>

definition col_coerce :: "(string \<Rightarrow> 'a option) \<Rightarrow> string option list \<Rightarrow> 'a option list" where
  "col_coerce rd v = map (\<lambda>c. Option.bind c rd) v"

text \<open>\<^verbatim>\<open>util_to_int\<close> (lines 174-180).\<close>

definition util_to_int ::
  "(string \<Rightarrow> rat option) \<Rightarrow> string option list \<Rightarrow> string \<Rightarrow> string list option \<Rightarrow> bool
     \<Rightarrow> log_record list \<times> (error + int option list)" where
  "util_to_int to_numeric v check_na na_is round_flag =
     (let x = col_coerce to_numeric v;
          x = (if round_flag then col_round x else x)
      in case astype_Int64 x of
           Inl e \<Rightarrow> ([], Inl e)
         | Inr x \<Rightarrow>
             (let (lg, chk) = util_check_na v x na_is check_na
              in case chk of Inl e \<Rightarrow> (lg, Inl e) | Inr _ \<Rightarrow> (lg, Inr x)))"

text \<open>\<^verbatim>\<open>util_to_float\<close> (lines 182-185).\<close>

definition util_to_float ::
  "(string \<Rightarrow> rat option) \<Rightarrow> string option list \<Rightarrow> string \<Rightarrow> string list option
     \<Rightarrow> log_record list \<times> (error + rat option list)" where
  "util_to_float to_numeric v check_na na_is =
     (let x = col_coerce to_numeric v;
          (lg, chk) = util_check_na v x na_is check_na
      in case chk of Inl e \<Rightarrow> (lg, Inl e) | Inr _ \<Rightarrow> (lg, Inr x))"

text \<open>\<^verbatim>\<open>util_factorize\<close> (lines 196-199): a categorical column has the cells of the
  column it was made from.\<close>

definition util_factorize ::
  "string option list \<Rightarrow> string \<Rightarrow> string list option
     \<Rightarrow> log_record list \<times> (error + string option list)" where
  "util_factorize v check_na na_is =
     (let x = v;
          (lg, chk) = util_check_na v x na_is check_na
      in case chk of Inl e \<Rightarrow> (lg, Inl e) | Inr _ \<Rightarrow> (lg, Inr x))"

text \<open>\<^verbatim>\<open>util_slurm_datetime_to_datetime\<close> (lines 202-205); a datetime cell is a count of
  nanoseconds.\<close>

definition util_slurm_datetime_to_datetime ::
  "(string \<Rightarrow> int option) \<Rightarrow> string option list \<Rightarrow> string \<Rightarrow> string list option
     \<Rightarrow> log_record list \<times> (error + int option list)" where
  "util_slurm_datetime_to_datetime to_datetime v check_na na_is =
     (let x = col_coerce to_datetime v;
          (lg, chk) = util_check_na v x na_is check_na
      in case chk of Inl e \<Rightarrow> (lg, Inl e) | Inr _ \<Rightarrow> (lg, Inr x))"


definition si_exponent :: "string \<Rightarrow> nat" where
  "si_exponent s =
     (if s = ''k'' \<or> s = ''K'' then 1 else if s = ''m'' \<or> s = ''M'' then 2
      else if s = ''g'' \<or> s = ''G'' then 3 else if s = ''t'' \<or> s = ''T'' then 4
      else if s = ''p'' \<or> s = ''P'' then 5 else if s = ''e'' \<or> s = ''E'' then 6 else 0)"

definition si_factor :: "bool \<Rightarrow> string \<Rightarrow> int" where
  "si_factor use1024 s = (if use1024 then 1024 else 1000) ^ si_exponent s"





definition per_cpu :: "string \<Rightarrow> bool" where
  "per_cpu q = (q = ''c'' \<or> q = ''C'')"

section \<open>Scalar duration parser\<close>

text \<open>
  The six patterns of \<^verbatim>\<open>util_slurm_duration_to_timedelta\<close> are built from three pieces:
  \<^verbatim>\<open>(\d+)\<close> followed by a separator, \<^verbatim>\<open>(\d+)$\<close> and \<^verbatim>\<open>([0-9.]+)$\<close>. A separator is
  neither a digit nor a point, so the greedy run is the only possible match of a group.
  Each function returns the groups and, last, what is left of the string after the
  match (nothing, or the newline that \<^verbatim>\<open>$\<close> tolerates).
\<close>

definition digits_then :: "char \<Rightarrow> string \<Rightarrow> (string \<times> string) option" where
  "digits_then sep s =
     (case dropWhile is_digit s of
        [] \<Rightarrow> None
      | c # r \<Rightarrow> if takeWhile is_digit s \<noteq> [] \<and> c = sep then Some (takeWhile is_digit s, r) else None)"

definition digits_end :: "string \<Rightarrow> (string \<times> string) option" where
  "digits_end s =
     (if takeWhile is_digit s \<noteq> [] \<and> at_end (dropWhile is_digit s)
      then Some (takeWhile is_digit s, dropWhile is_digit s) else None)"

definition numch_end :: "string \<Rightarrow> (string \<times> string) option" where
  "numch_end s =
     (if takeWhile is_numch s \<noteq> [] \<and> at_end (dropWhile is_numch s)
      then Some (takeWhile is_numch s, dropWhile is_numch s) else None)"

text \<open>\<^verbatim>\<open>^(\d+)-(\d+):(\d+):([0-9.]+)$\<close>\<close>

definition re_dhms :: "string \<Rightarrow> (string \<times> string \<times> string \<times> string \<times> string) option" where
  "re_dhms v =
     (case digits_then CHR ''-'' v of None \<Rightarrow> None | Some (d, r) \<Rightarrow>
      case digits_then CHR '':'' r of None \<Rightarrow> None | Some (h, r) \<Rightarrow>
      case digits_then CHR '':'' r of None \<Rightarrow> None | Some (m, r) \<Rightarrow>
      case numch_end r of None \<Rightarrow> None | Some (s, rest) \<Rightarrow> Some (d, h, m, s, rest))"

text \<open>\<^verbatim>\<open>^(\d+)-(\d+):(\d+)$\<close>\<close>

definition re_dhm :: "string \<Rightarrow> (string \<times> string \<times> string \<times> string) option" where
  "re_dhm v =
     (case digits_then CHR ''-'' v of None \<Rightarrow> None | Some (d, r) \<Rightarrow>
      case digits_then CHR '':'' r of None \<Rightarrow> None | Some (h, r) \<Rightarrow>
      case digits_end r of None \<Rightarrow> None | Some (m, rest) \<Rightarrow> Some (d, h, m, rest))"

text \<open>\<^verbatim>\<open>^(\d+)-(\d+)$\<close>\<close>

definition re_dh :: "string \<Rightarrow> (string \<times> string \<times> string) option" where
  "re_dh v =
     (case digits_then CHR ''-'' v of None \<Rightarrow> None | Some (d, r) \<Rightarrow>
      case digits_end r of None \<Rightarrow> None | Some (h, rest) \<Rightarrow> Some (d, h, rest))"

text \<open>\<^verbatim>\<open>^(\d+):(\d+):([0-9.]+)$\<close>\<close>

definition re_hms :: "string \<Rightarrow> (string \<times> string \<times> string \<times> string) option" where
  "re_hms v =
     (case digits_then CHR '':'' v of None \<Rightarrow> None | Some (h, r) \<Rightarrow>
      case digits_then CHR '':'' r of None \<Rightarrow> None | Some (m, r) \<Rightarrow>
      case numch_end r of None \<Rightarrow> None | Some (s, rest) \<Rightarrow> Some (h, m, s, rest))"

text \<open>\<^verbatim>\<open>^(\d+):([0-9.]+)$\<close>\<close>

definition re_ms :: "string \<Rightarrow> (string \<times> string \<times> string) option" where
  "re_ms v =
     (case digits_then CHR '':'' v of None \<Rightarrow> None | Some (m, r) \<Rightarrow>
      case numch_end r of None \<Rightarrow> None | Some (s, rest) \<Rightarrow> Some (m, s, rest))"

text \<open>\<^verbatim>\<open>^(\d+)$\<close>\<close>

definition re_m :: "string \<Rightarrow> (string \<times> string) option" where
  "re_m v = digits_end v"

text \<open>Python's \<^verbatim>\<open>int\<close> and \<^verbatim>\<open>float\<close> on a group of a match.\<close>

definition py_int :: "string \<Rightarrow> int" where
  "py_int s = int_of_digits s"

definition py_float :: "string \<Rightarrow> error + rat" where
  "py_float s = (case decimal_value s of
       None \<Rightarrow> Inl (ValueError (CouldNotConvertToFloat s))
     | Some q \<Rightarrow> Inr q)"

text \<open>
  \<^verbatim>\<open>datetime.timedelta(days, hours, minutes, seconds)\<close> in microseconds. The integer
  arguments count exactly; of a float number of seconds the whole part counts exactly
  and the fraction is rounded to the nearest microsecond, ties to even. A result of more
  than 999999999 days is refused.
\<close>

definition timedelta :: "int \<Rightarrow> int \<Rightarrow> int \<Rightarrow> rat \<Rightarrow> error + int" where
  "timedelta days hours minutes seconds =
     (let us = days * 86400000000 + hours * 3600000000 + minutes * 60000000
               + \<lfloor>seconds\<rfloor> * 1000000
               + round_half_even ((seconds - of_int \<lfloor>seconds\<rfloor>) * 1000000)
      in if 999999999 < \<bar>us div 86400000000\<bar> then Inl OverflowError else Inr us)"

definition timedelta_float :: "int \<Rightarrow> int \<Rightarrow> int \<Rightarrow> string \<Rightarrow> error + int option" where
  "timedelta_float days hours minutes s =
     (case py_float s of
        Inl e \<Rightarrow> Inl e
      | Inr q \<Rightarrow> (case timedelta days hours minutes q of Inl e \<Rightarrow> Inl e | Inr t \<Rightarrow> Inr (Some t)))"

definition timedelta_int :: "int \<Rightarrow> int \<Rightarrow> int \<Rightarrow> error + int option" where
  "timedelta_int days hours minutes =
     (case timedelta days hours minutes 0 of Inl e \<Rightarrow> Inl e | Inr t \<Rightarrow> Inr (Some t))"

text \<open>\<^verbatim>\<open>util_slurm_duration_to_timedelta\<close> (lines 208-244); \<open>Inr None\<close> is the
  \<^verbatim>\<open>None\<close> returned for an NA marker.\<close>

definition util_slurm_duration_to_timedelta :: "string \<Rightarrow> error + int option" where
  "util_slurm_duration_to_timedelta v =
     (case re_dhms v of
        Some (d, h, m, s, rest) \<Rightarrow> timedelta_float (py_int d) (py_int h) (py_int m) s
      | None \<Rightarrow>
     (case re_dhm v of
        Some (d, h, m, rest) \<Rightarrow> timedelta_int (py_int d) (py_int h) (py_int m)
      | None \<Rightarrow>
     (case re_dh v of
        Some (d, h, rest) \<Rightarrow> timedelta_int (py_int d) (py_int h) 0
      | None \<Rightarrow>
     (case re_hms v of
        Some (h, m, s, rest) \<Rightarrow> timedelta_float 0 (py_int h) (py_int m) s
      | None \<Rightarrow>
     (case re_ms v of
        Some (m, s, rest) \<Rightarrow> timedelta_float 0 0 (py_int m) s
      | None \<Rightarrow>
     (case re_m v of
        Some (m, rest) \<Rightarrow> timedelta_int 0 0 (py_int m)
      | None \<Rightarrow>
          if v \<in> set default_na_is then Inr None
          else Inl (Exception (UnknownDurationFormat v))))))))"

section \<open>Batch duration parser\<close>

text \<open>
  The five rewritings of lines 256-260. \<^verbatim>\<open>str.replace\<close> with an anchored pattern
  replaces the one match and keeps what follows it; the last rewriting replaces every
  hyphen.
\<close>

definition rewrite_m :: "string \<Rightarrow> string" where
  "rewrite_m s = (case re_m s of None \<Rightarrow> s | Some (m, rest) \<Rightarrow> m @ '' m'' @ rest)"

definition rewrite_ms :: "string \<Rightarrow> string" where
  "rewrite_ms s = (case re_ms s of None \<Rightarrow> s | Some (m, sec, rest) \<Rightarrow> m @ '' m '' @ sec @ '' S'' @ rest)"

definition rewrite_dh :: "string \<Rightarrow> string" where
  "rewrite_dh s = (case re_dh s of None \<Rightarrow> s | Some (d, h, rest) \<Rightarrow> d @ '' D '' @ h @ '' h'' @ rest)"

definition rewrite_dhm :: "string \<Rightarrow> string" where
  "rewrite_dhm s =
     (case re_dhm s of None \<Rightarrow> s | Some (d, h, m, rest) \<Rightarrow> d @ ''-'' @ h @ '':'' @ m @ '':00'' @ rest)"

definition rewrite_hyphens :: "string \<Rightarrow> string" where
  "rewrite_hyphens s = concat (map (\<lambda>c. if c = CHR ''-'' then '' days '' else [c]) s)"

definition rewrite_duration :: "string \<Rightarrow> string" where
  "rewrite_duration s = rewrite_hyphens (rewrite_dhm (rewrite_dh (rewrite_ms (rewrite_m s))))"

text \<open>
  \<^verbatim>\<open>util_slurm_duration_to_duration\<close> (lines 247-263). What \<^verbatim>\<open>pd.to_timedelta\<close> reads
  from one cell, in nanoseconds, is a parameter, as for the coercers above. The name
  \<^verbatim>\<open>v\<close> is rebound by the rewritings, so the validator sees the rewritten column.
\<close>

definition util_slurm_duration_to_duration ::
  "(string \<Rightarrow> int option) \<Rightarrow> string option list \<Rightarrow> string \<Rightarrow> string list option
     \<Rightarrow> log_record list \<times> (error + int option list)" where
  "util_slurm_duration_to_duration to_timedelta v check_na na_is =
     (let v = map (map_option rewrite_duration) v;
          x = col_coerce to_timedelta v;
          (lg, chk) = util_check_na v x na_is check_na
      in case chk of Inl e \<Rightarrow> (lg, Inl e) | Inr _ \<Rightarrow> (lg, Inr x))"

text \<open>The column that \<^verbatim>\<open>util_to_int\<close> returns with \<^verbatim>\<open>round=True\<close>, cell by cell.\<close>

definition rounded_cells :: "(string \<Rightarrow> rat option) \<Rightarrow> string list \<Rightarrow> int option list" where
  "rounded_cells to_numeric vs = map (\<lambda>s. map_option round_half_even (to_numeric s)) vs"

text \<open>What \<^verbatim>\<open>util_norm_si\<close> does to the product of one cell after line 135: the division
  by the factor of the target unit, if one is given, and the rounding, if asked for.\<close>

definition si_finish :: "bool \<Rightarrow> bool \<Rightarrow> string \<Rightarrow> rat \<Rightarrow> rat" where
  "si_finish convert_to_int use1024 return_in q =
     (let q' = (if return_in = [] then q else q / of_int (si_factor use1024 return_in))
      in if convert_to_int then of_int (round_half_even q') else q')"

text \<open>The flag that \<^verbatim>\<open>util_memory\<close> gives to one cell.\<close>

definition cpu_flag :: "string option \<Rightarrow> bool" where
  "cpu_flag c = (case Option.bind c mem_extract of None \<Rightarrow> False | Some (s, q) \<Rightarrow> per_cpu q)"

section \<open>Properties of the duration formatter\<close>

lemma digit_char_not_sign: "n < 10 \<Longrightarrow> digit_char n \<noteq> CHR ''-'' \<and> digit_char n \<noteq> CHR ''+''"
proof -
  assume "n < 10"
  then have "n \<in> {0,1,2,3,4,5,6,7,8,9}" by auto
  then show ?thesis by (auto simp: digit_char_def)
qed

lemma str_nat_small: "n < 10 \<Longrightarrow> str_nat n = [digit_char n]"
  by (simp add: str_nat.simps)

lemma str_nat_two: "10 \<le> n \<Longrightarrow> n < 100 \<Longrightarrow> str_nat n = [digit_char (n div 10), digit_char (n mod 10)]"
  by (subst str_nat.simps) (simp add: str_nat_small)

lemma zfill_two_digits: "0 \<le> i \<Longrightarrow> i < 100 \<Longrightarrow> zfill 2 (str_int i) = two_digits i"
proof -
  assume a: "0 \<le> i" "i < 100"
  show ?thesis
  proof (cases "nat i < 10")
    case True
    then show ?thesis using a digit_char_not_sign[of "nat i"]
      by (simp add: zfill_def str_int_def str_nat_small two_digits_def digit_char_def)
  next
    case False
    then have "10 \<le> nat i" "nat i < 100" using a by auto
    then show ?thesis using a digit_char_not_sign[of "nat i div 10"]
      by (simp add: zfill_def str_int_def str_nat_two two_digits_def)
  qed
qed

lemma str_nat_nonempty: "str_nat n \<noteq> []"
  by (subst str_nat.simps) simp

lemma str_nat_eq_zero: "str_nat n = ''0'' \<longleftrightarrow> n = 0"
proof
  assume h: "str_nat n = ''0''"
  show "n = 0"
  proof (cases "n < 10")
    case True
    then have "n \<in> {0,1,2,3,4,5,6,7,8,9}" by auto
    then show ?thesis using h by (auto simp: str_nat_small digit_char_def)
  next
    case False
    then have "str_nat n = str_nat (n div 10) @ [digit_char (n mod 10)]"
      by (subst str_nat.simps) simp
    then have "length (str_nat n) \<ge> 2" using str_nat_nonempty[of "n div 10"]
      by (cases "str_nat (n div 10)") simp_all
    then show ?thesis using h by simp
  qed
next
  assume "n = 0" then show "str_nat n = ''0''" by (simp add: str_nat_small digit_char_def)
qed

lemma str_int_dash_zero: "str_int d @ ''-'' = ''0-'' \<longleftrightarrow> d = 0"
proof (cases "d < 0")
  case True
  then show ?thesis by (simp add: str_int_def)
next
  case False
  then have "str_int d = str_nat (nat d)" by (simp add: str_int_def)
  then show ?thesis using str_nat_eq_zero[of "nat d"] False by auto
qed

lemma td_hours_range: "0 \<le> td_hours t \<and> td_hours t < 24"
proof -
  have "0 \<le> t mod ns_per_day" "t mod ns_per_day < ns_per_day" by (simp_all add: ns_per_day_def)
  then show ?thesis unfolding td_hours_def by (simp add: ns_per_day_def ns_per_h_def pos_imp_zdiv_nonneg_iff) 
qed


lemma td_minutes_range: "0 \<le> td_minutes t \<and> td_minutes t < 60"
proof -
  have "0 \<le> t mod ns_per_h" "t mod ns_per_h < ns_per_h" by (simp_all add: ns_per_h_def)
  then show ?thesis unfolding td_minutes_def by (simp add: ns_per_min_def ns_per_h_def pos_imp_zdiv_nonneg_iff)
qed

lemma td_seconds_range: "0 \<le> td_seconds t \<and> td_seconds t < 60"
proof -
  have "0 \<le> t mod ns_per_min" "t mod ns_per_min < ns_per_min" by (simp_all add: ns_per_min_def)
  then show ?thesis unfolding td_seconds_def by (simp add: ns_per_min_def ns_per_s_def pos_imp_zdiv_nonneg_iff)
qed

lemma div_mod_units:
  fixes t :: int
  assumes "0 < a" "0 < b"
  shows "t mod (1000000000 * a) div (1000000000 * b) = (t div 1000000000) mod a div b"
proof -
  have "t mod (1000000000 * a) = 1000000000 * (t div 1000000000 mod a) + t mod 1000000000"
    using assms by (simp add: zmod_zmult2_eq)
  then have "t mod (1000000000 * a) div 1000000000 = t div 1000000000 mod a"
    by simp
  then show ?thesis using assms by (simp add: zdiv_zmult2_eq)
qed

lemma breakdown_arith:
  fixes s q1 r1 q2 r2 q3 r3 :: int
  assumes "s = 86400 * q1 + r1" "r1 = 3600 * q2 + r2" "r2 = 60 * q3 + r3"
  shows "s = ((q1 * 24 + q2) * 60 + q3) * 60 + r3"
  using assms by (simp add: algebra_simps)

lemma seconds_breakdown:
  fixes s :: int
  shows "s = ((s div 86400 * 24 + s mod 86400 div 3600) * 60 + s mod 3600 div 60) * 60 + s mod 60"
proof -
  have a: "s = 86400 * (s div 86400) + s mod 86400"
    by (rule mult_div_mod_eq [symmetric])
  have b': "s mod 86400 mod 3600 = s mod 3600" by (rule mod_mod_cancel) simp
  have b: "s mod 86400 = 3600 * (s mod 86400 div 3600) + s mod 3600"
    using mult_div_mod_eq [of 3600 "s mod 86400"] b' by (simp only:)
  have c': "s mod 3600 mod 60 = s mod 60" by (rule mod_mod_cancel) simp
  have c: "s mod 3600 = 60 * (s mod 3600 div 60) + s mod 60"
    using mult_div_mod_eq [of 60 "s mod 3600"] c' by (simp only:)
  show ?thesis by (rule breakdown_arith [OF a b c])
qed

lemma format_cell:
  "(if x = None then ''NA''
    else (let d = astype_str (map_option (\<lambda>t. t div ns_per_day) x) @ ''-'' in if d = ''0-'' then [] else d)
      @ zfill 2 (astype_str (map_option (\<lambda>t. t div ns_per_h) (map_option (\<lambda>t. t mod ns_per_day) x))) @ '':''
      @ zfill 2 (astype_str (map_option (\<lambda>t. t div ns_per_min) (map_option (\<lambda>t. t mod ns_per_h) x))) @ '':''
      @ zfill 2 (astype_str (map_option (\<lambda>t. t div ns_per_s) (map_option (\<lambda>t. t mod ns_per_min) x))))
   = canonical_form x"
proof (cases x)
  case None
  then show ?thesis by (simp add: canonical_form_def)
next
  case (Some t)
  have h: "zfill 2 (str_int (t mod ns_per_day div ns_per_h)) = two_digits (td_hours t)"
    using td_hours_range[of t] by (simp add: zfill_two_digits td_hours_def)
  have m: "zfill 2 (str_int (t mod ns_per_h div ns_per_min)) = two_digits (td_minutes t)"
    using td_minutes_range[of t] by (simp add: zfill_two_digits td_minutes_def)
  have s: "zfill 2 (str_int (t mod ns_per_min div ns_per_s)) = two_digits (td_seconds t)"
    using td_seconds_range[of t] by (simp add: zfill_two_digits td_seconds_def)
  have d: "(str_int (t div ns_per_day) @ ''-'' = ''0-'') = (td_days t = 0)"
    using str_int_dash_zero[of "t div ns_per_day"] by (simp add: td_days_def)
  show ?thesis using Some d h m s
    by (simp add: canonical_form_def astype_str_def Let_def td_days_def)
qed

lemma formatter_cells:
  "util_timedelta_to_slurm_duration v = map canonical_form v"
proof -
  have "util_timedelta_to_slurm_duration v = map (\<lambda>x.
    (if x = None then ''NA''
    else (let d = astype_str (map_option (\<lambda>t. t div ns_per_day) x) @ ''-'' in if d = ''0-'' then [] else d)
      @ zfill 2 (astype_str (map_option (\<lambda>t. t div ns_per_h) (map_option (\<lambda>t. t mod ns_per_day) x))) @ '':''
      @ zfill 2 (astype_str (map_option (\<lambda>t. t div ns_per_min) (map_option (\<lambda>t. t mod ns_per_h) x))) @ '':''
      @ zfill 2 (astype_str (map_option (\<lambda>t. t div ns_per_s) (map_option (\<lambda>t. t mod ns_per_min) x))))) v"
    unfolding util_timedelta_to_slurm_duration_def col_floordiv_def col_mod_def col_cat_def col_cat_lit_def Let_def
    by (induction v) simp_all
  then show ?thesis by (simp only: format_cell)
qed

lemma td_breakdown:
  "t div ns_per_s = ((td_days t * 24 + td_hours t) * 60 + td_minutes t) * 60 + td_seconds t"
proof -
  define s where "s = t div 1000000000"
  have a: "t div 86400000000000 = s div 86400" unfolding s_def by (simp add: zdiv_zmult2_eq)
  have b: "t mod 86400000000000 div 3600000000000 = (s mod 86400) div 3600"
    unfolding s_def using div_mod_units[of 86400 3600 t] by simp
  have c: "t mod 3600000000000 div 60000000000 = (s mod 3600) div 60"
    unfolding s_def using div_mod_units[of 3600 60 t] by simp
  have d: "t mod 60000000000 div 1000000000 = s mod 60"
    unfolding s_def using div_mod_units[of 60 1 t] by simp
  have "s = ((s div 86400 * 24 + s mod 86400 div 3600) * 60 + s mod 3600 div 60) * 60 + s mod 60"
    by (rule seconds_breakdown)
  then show ?thesis
    unfolding td_days_def td_hours_def td_minutes_def td_seconds_def
      ns_per_s_def ns_per_min_def ns_per_h_def ns_per_day_def
    by (simp only: a b c d s_def [symmetric] mult_numeral_left_semiring_numeral numeral_times_numeral
        arith_simps)
qed

text \<open>
  Claim C7. For every column of durations the formatter gives, cell by cell, the
  canonical form: \<^verbatim>\<open>NA\<close> for a null duration, otherwise \<^verbatim>\<open>D-HH:MM:SS\<close> with the hour,
  minute and second fields two digits each and the \<^verbatim>\<open>D-\<close> segment left out when the
  day count is zero. The three fields are below 24, 60 and 60, together with the day
  count they account for every whole second of the duration, and the zero duration is
  written \<^verbatim>\<open>00:00:00\<close>.
\<close>

theorem formatter_canonical_form:
  "util_timedelta_to_slurm_duration v = map canonical_form v
   \<and> canonical_form None = ''NA''
   \<and> canonical_form (Some 0) = ''00:00:00''
   \<and> (0 \<le> td_hours t \<and> td_hours t < 24)
   \<and> (0 \<le> td_minutes t \<and> td_minutes t < 60)
   \<and> (0 \<le> td_seconds t \<and> td_seconds t < 60)
   \<and> length (two_digits (td_hours t)) = 2
   \<and> t div ns_per_s = ((td_days t * 24 + td_hours t) * 60 + td_minutes t) * 60 + td_seconds t"
proof -
  have z: "canonical_form (Some 0) = ''00:00:00''"
    by (simp add: canonical_form_def td_days_def td_hours_def td_minutes_def td_seconds_def
        two_digits_def digit_char_def)
  have n: "canonical_form None = ''NA''" by (simp add: canonical_form_def)
  show ?thesis
    using formatter_cells [of v] td_hours_range [of t] td_minutes_range [of t]
      td_seconds_range [of t] td_breakdown [of t] z n
    by (simp add: two_digits_def)
qed

theorem formatter_canonical_form_witness:
  "util_timedelta_to_slurm_duration [Some 0, None, Some 183845000000000]
     = [''00:00:00'', ''NA'', ''2-03:04:05'']"
proof -
  have "util_timedelta_to_slurm_duration [Some 0, None, Some 183845000000000]
          = map canonical_form [Some 0, None, Some 183845000000000]"
    using formatter_canonical_form [of "[Some 0, None, Some 183845000000000]" 0] by blast
  also have "\<dots> = [''00:00:00'', ''NA'', ''2-03:04:05'']" by code_simp
  finally show ?thesis .
qed

section \<open>Properties of the NA validator\<close>

lemma non_valid_mask:
  "map2 (\<lambda>a b. a \<and> \<not> b) (col_isna x) (col_isin (map Some v) na)
     = map (\<lambda>(c, s). c = None \<and> s \<notin> set na) (zip x v)"
  unfolding col_isna_def col_isin_def
  by (induction x arbitrary: v) (auto simp: zip_Cons1 split: list.splits)

lemma count_mask:
  "length (filter id (map (\<lambda>(c, s). c = None \<and> s \<notin> set na) (zip x v)))
     = length (unexpected_values v x na)"
  unfolding unexpected_values_def
  by (induction x arbitrary: v) (auto simp: zip_Cons1 split: list.splits)

lemma select_mask:
  "col_select (map Some v) (map (\<lambda>(c, s). c = None \<and> s \<notin> set na) (zip x v))
     = map Some (unexpected_values v x na)"
  unfolding unexpected_values_def col_select_def
  by (induction x arbitrary: v) (auto simp: zip_Cons1 split: list.splits)

lemma np_unique_strings: "np_unique (map Some xs) = Inr (sort (remdups (map Some xs)))"
  by (simp add: np_unique_def list_all_iff)

lemma check_na_unfold:
  assumes "check_na \<noteq> ''ignore''"
  shows "util_check_na (map Some v) x na_is check_na =
    (let na = na_marker_set na_is; n = length (unexpected_values v x na); msg = na_message v x na in
     if n \<noteq> 0 then
       if check_na = ''warning'' then ([(WARNING, msg)], Inr (Some n))
       else if check_na = ''error'' then ([(ERROR, msg)], Inl (ValueError msg))
       else ([], Inr (Some n))
     else ([], Inr (Some n)))"
  using assms unfolding util_check_na_def Let_def na_marker_set_def na_message_def
  by (simp only: non_valid_mask count_mask select_mask np_unique_strings if_False sum.case)

lemma sample_props:
  "length (take 20 (sort (remdups xs))) \<le> 20"
  "distinct (take 20 (sort (remdups xs)))"
  "set (take 20 (sort (remdups xs))) \<subseteq> set xs"
  using set_take_subset[of 20 "sort (remdups xs)"] by auto

lemma check_na_policies:
  "(unexpected_values v x (na_marker_set na_is) = [] \<longrightarrow>
          util_check_na (map Some v) x na_is ''warning'' = ([], Inr (Some 0))
        \<and> util_check_na (map Some v) x na_is ''error'' = ([], Inr (Some 0)))
    \<and> (unexpected_values v x (na_marker_set na_is) \<noteq> [] \<longrightarrow>
          util_check_na (map Some v) x na_is ''warning''
            = ([(WARNING, na_message v x (na_marker_set na_is))],
               Inr (Some (length (unexpected_values v x (na_marker_set na_is)))))
        \<and> util_check_na (map Some v) x na_is ''error''
            = ([(ERROR, na_message v x (na_marker_set na_is))],
               Inl (ValueError (na_message v x (na_marker_set na_is)))))
    \<and> (\<exists>sample. na_message v x (na_marker_set na_is)
            = NonValidNA (length (unexpected_values v x (na_marker_set na_is)))
                (na_marker_set na_is) sample
          \<and> length sample \<le> 20 \<and> distinct sample
          \<and> set sample \<subseteq> Some ` set (unexpected_values v x (na_marker_set na_is)))"
proof -
  let ?na = "na_marker_set na_is"
  let ?u = "unexpected_values v x ?na"
  have w: "util_check_na (map Some v) x na_is ''warning'' =
      (if length ?u \<noteq> 0 then ([(WARNING, na_message v x ?na)], Inr (Some (length ?u)))
       else ([], Inr (Some (length ?u))))"
    by (subst check_na_unfold) (simp_all add: Let_def)
  have e: "util_check_na (map Some v) x na_is ''error'' =
      (if length ?u \<noteq> 0 then ([(ERROR, na_message v x ?na)], Inl (ValueError (na_message v x ?na)))
       else ([], Inr (Some (length ?u))))"
    by (subst check_na_unfold) (simp_all add: Let_def)
  have s: "\<exists>sample. na_message v x ?na = NonValidNA (length ?u) ?na sample
          \<and> length sample \<le> 20 \<and> distinct sample \<and> set sample \<subseteq> Some ` set ?u"
    unfolding na_message_def using sample_props [of "map Some ?u"] by auto
  show ?thesis using w e s by simp
qed

lemma check_na_ignore: "util_check_na v x na_is ''ignore'' = ([], Inr None)"
  by (simp add: util_check_na_def)

text \<open>
  Claim C2. On the example of the claim, the column \<^verbatim>\<open>["", "Unknown", "garbage"]\<close> whose
  conversion is missing everywhere, \<^verbatim>\<open>warning\<close> logs one message with the count 1 and the
  one sample \<^verbatim>\<open>garbage\<close> and returns 1, and \<^verbatim>\<open>error\<close> logs the same message and raises
  a \<^verbatim>\<open>ValueError\<close> with it, as the claim says. Under \<^verbatim>\<open>ignore\<close> nothing is logged, but
  the value returned is Python's \<^verbatim>\<open>None\<close> (the bare \<^verbatim>\<open>return\<close> of lines 80-81), not the
  count 1 that the claim and the docstring of the function (lines 76-77) promise.
\<close>

theorem check_na_ignore_returns_none:
  "util_check_na [Some '''', Some ''Unknown'', Some ''garbage''] [None, None, None :: int option]
        None ''ignore'' = ([], Inr None)
   \<and> util_check_na [Some '''', Some ''Unknown'', Some ''garbage''] [None, None, None :: int option]
        None ''warning''
       = ([(WARNING, NonValidNA 1 default_na_is [Some ''garbage''])], Inr (Some 1))
   \<and> util_check_na [Some '''', Some ''Unknown'', Some ''garbage''] [None, None, None :: int option]
        None ''error''
       = ([(ERROR, NonValidNA 1 default_na_is [Some ''garbage''])],
          Inl (ValueError (NonValidNA 1 default_na_is [Some ''garbage''])))"
proof -
  have u: "unexpected_values ['''', ''Unknown'', ''garbage''] [None, None, None :: int option]
             (na_marker_set None) = [''garbage'']"
    by (simp add: unexpected_values_def na_marker_set_def default_na_is_def)
  have m: "na_message ['''', ''Unknown'', ''garbage''] [None, None, None :: int option]
             (na_marker_set None) = NonValidNA 1 default_na_is [Some ''garbage'']"
    unfolding na_message_def u by (simp add: na_marker_set_def)
  show ?thesis
    using check_na_policies [of "['''', ''Unknown'', ''garbage'']" "[None, None, None :: int option]" None]
      check_na_ignore [of "[Some '''', Some ''Unknown'', Some ''garbage'']" "[None, None, None :: int option]" None]
    by (simp add: u m)
qed

section \<open>Properties of the SI-suffix parser\<close>



































section \<open>Properties of the memory-spec parser\<close>

















end
